theory Spec2Isabelle
  imports Main "HOL-Library.Option_ord"
begin

section \<open>The SQLite store behind \<open>Model\<close>\<close>

text \<open>
  \<open>urna_eletronica_rpi.py\<close> keeps two tables in one SQLite file. The program only
  reads \<open>candidatos\<close>, through the three columns its own \<open>CREATE TABLE\<close> gives it, so a
  row of that table is the triple \<open>(id, nome, partido)\<close>, \<open>partido\<close> being nullable.

  The table \<open>votos\<close> is written by \<open>gravar_voto\<close> and read by \<open>contar_votos\<close>. The
  \<open>INSERT\<close> names the columns \<open>candidato_id\<close> and \<open>voto_tipo\<close>, the \<open>SELECT\<close> names
  \<open>candidato_id\<close>, and SQLite refuses a statement that names a column the table does
  not have. The column names of \<open>votos\<close> are therefore part of the state. A row keeps the
  two columns the program ever mentions; \<open>id\<close> and \<open>timestamp\<close> are filled in by SQLite
  (autoincrement and \<open>CURRENT_TIMESTAMP\<close>) and no statement of the program reads them.
  A column the \<open>INSERT\<close> does not name is \<open>NULL\<close> (\<open>None\<close>).
\<close>

type_synonym candidato = "int \<times> string \<times> string option"

record voto =
  candidato_id :: "int option"
  voto_tipo :: "string option"

record votos_table =
  columns :: "string list"
  rows :: "voto list"

text \<open>
  The file as \<open>Model.__init__\<close> finds it: a table may not exist yet (\<open>None\<close>).
\<close>

record db_file =
  file_candidatos :: "candidato list option"
  file_votos :: "votos_table option"

text \<open>
  The store once \<open>_ensure_db\<close> has run: both tables exist. Every method of \<open>Model\<close>
  opens its own connection to the same file, so the file's content is the whole state.
\<close>

record database =
  candidatos :: "candidato list"
  votos :: votos_table

text \<open>
  \<open>sqlite3.OperationalError\<close>, with the two messages the statements of the program can
  draw: "table votos has no column named c" (from \<open>INSERT\<close>) and "no such column: c"
  (from \<open>SELECT\<close>).
\<close>

datatype sql_error = NoColumnNamed string | NoSuchColumn string

text \<open>
  \<open>Model._ensure_db\<close>: two \<open>CREATE TABLE IF NOT EXISTS\<close>. A table that exists is left
  as it is, whatever its columns; a missing \<open>votos\<close> is created with \<open>id\<close>,
  \<open>candidato_id\<close> and \<open>timestamp\<close>.
\<close>

definition ensure_db :: "db_file \<Rightarrow> database" where
  "ensure_db f =
     \<lparr>candidatos = (case file_candidatos f of None \<Rightarrow> [] | Some cs \<Rightarrow> cs),
      votos = (case file_votos f of
                 None \<Rightarrow> \<lparr>columns = [''id'', ''candidato_id'', ''timestamp''], rows = []\<rparr>
               | Some t \<Rightarrow> t)\<rparr>"

text \<open>
  \<open>Model.get_candidato\<close>: \<open>SELECT ... WHERE id = ?\<close> and \<open>fetchone\<close>, the first matching
  row or \<open>None\<close>.
\<close>

definition get_candidato :: "database \<Rightarrow> int \<Rightarrow> candidato option" where
  "get_candidato db ident = find (\<lambda>c. fst c = ident) (candidatos db)"

text \<open>
  \<open>Model.gravar_voto\<close>. \<open>None\<close> stands for a blank and for a null ballot alike and is
  stored with \<open>voto_tipo = "BRANCO"\<close>; a number is stored with \<open>"VALIDO"\<close>. The \<open>INSERT\<close>
  raises when the table lacks one of the two columns it names (SQLite reports the first
  one missing); then nothing is committed and the store is as before, which is why the
  error carries no new store.
\<close>

definition gravar_voto :: "database \<Rightarrow> int option \<Rightarrow> sql_error + database" where
  "gravar_voto db cid =
     (let voto_tipo_val = (case cid of None \<Rightarrow> ''BRANCO'' | Some _ \<Rightarrow> ''VALIDO'');
          candidato_val = cid
      in if ''candidato_id'' \<notin> set (columns (votos db)) then Inl (NoColumnNamed ''candidato_id'')
         else if ''voto_tipo'' \<notin> set (columns (votos db)) then Inl (NoColumnNamed ''voto_tipo'')
         else Inr (db\<lparr>votos := (votos db)\<lparr>rows := rows (votos db) @
                 [\<lparr>candidato_id = candidato_val, voto_tipo = Some voto_tipo_val\<rparr>]\<rparr>\<rparr>))"

text \<open>
  \<open>Model.contar_votos\<close>: \<open>SELECT candidato_id, COUNT(*) FROM votos GROUP BY candidato_id\<close>,
  then the dict \<open>{r[0]: r[1] for r in rows}\<close>. The dict is the list of its items, one per
  distinct key; SQLite emits the groups in ascending key order with \<open>NULL\<close> first, which is
  the order on \<open>int option\<close>.
\<close>

definition group_by_candidato_id :: "voto list \<Rightarrow> (int option \<times> nat) list" where
  "group_by_candidato_id vs =
     (let ks = map candidato_id vs
      in map (\<lambda>k. (k, count_list ks k)) (sort (remdups ks)))"

definition contar_votos :: "database \<Rightarrow> sql_error + (int option \<times> nat) list" where
  "contar_votos db =
     (if ''candidato_id'' \<notin> set (columns (votos db)) then Inl (NoSuchColumn ''candidato_id'')
      else Inr (group_by_candidato_id (rows (votos db))))"

text \<open>\<open>Model.listar_candidatos\<close>: all candidates, \<open>ORDER BY id\<close>.\<close>

definition listar_candidatos :: "database \<Rightarrow> candidato list" where
  "listar_candidatos db = sort_key fst (candidatos db)"

text \<open>
  A run of \<open>gravar_voto\<close> calls, one per element, each on the store the previous one
  left. A call that raises leaves the store alone and is not counted; the result is the
  number of calls that returned and the final store.
\<close>

fun gravar_votos :: "database \<Rightarrow> int option list \<Rightarrow> nat \<times> database" where
  "gravar_votos db [] = (0, db)"
| "gravar_votos db (cid # cids) =
     (case gravar_voto db cid of
        Inl e \<Rightarrow> gravar_votos db cids
      | Inr db' \<Rightarrow> (case gravar_votos db' cids of (n, db'') \<Rightarrow> (Suc n, db'')))"

text \<open>The total of a tally: the counts of all its keys added up.\<close>

definition total_votos :: "(int option \<times> nat) list \<Rightarrow> nat" where
  "total_votos t = sum_list (map snd t)"

section \<open>The controller\<close>

text \<open>
  \<open>MAX_DIGITS\<close>, the width of a candidate number.
\<close>

definition MAX_DIGITS :: nat where
  "MAX_DIGITS = 2"

text \<open>
  \<open>str.isdigit\<close> and \<open>int\<close> on the strings the keypad can build. The keys of \<open>UrnaView\<close>
  are the ten ASCII digits, so \<open>numero\<close> is a string of those or the token \<open>BRANCO\<close>.
  \<open>int_str\<close> is the decimal value of a string of ASCII digits (leading zeros allowed, as
  in Python); the program calls \<open>int\<close> on such strings only, behind \<open>isdigit\<close> in
  \<open>on_confirma\<close> and on the keyed digits in \<open>on_digit\<close>.
\<close>

definition isdigit :: "string \<Rightarrow> bool" where
  "isdigit s = (s \<noteq> [] \<and> list_all (\<lambda>c. c \<in> set ''0123456789'') s)"

definition int_str :: "string \<Rightarrow> int" where
  "int_str s = foldl (\<lambda>acc c. 10 * acc + (int (of_char c) - 48)) 0 s"

text \<open>
  What the handlers do to the outside, in the order they do it: the cue of
  \<open>SoundPlayer.play_puc\<close>, the message boxes (named after their texts: "Nenhum numero
  digitado.", "Voto em BRANCO confirmado!", "Voto confirmado para nome", "Candidato nao
  encontrado. Confirma voto NULO?", "Numero invalido.") and the end-of-vote animation.
\<close>

datatype ui_effect =
    PlayPuc
  | ShowWarningNenhumNumero
  | ShowInfoBranco
  | ShowInfoCandidato string
  | AskYesNoNulo
  | ShowErrorNumeroInvalido
  | AnimacaoFim

text \<open>
  The \<open>Controller\<close> object: its \<open>Model\<close> (the store), the input \<open>numero\<close>, what the
  view shows (\<open>atualizar_numero\<close>, \<open>atualizar_candidato\<close>), the number of callbacks
  that \<open>animacao_fim\<close> has handed to \<open>self.after(1200, ...)\<close> and that have not run yet,
  and the log of outside effects.
\<close>

record controller =
  model :: database
  numero :: string
  view_numero :: string
  view_candidato :: "candidato option"
  pending_resets :: nat
  ui_log :: "ui_effect list"

text \<open>\<open>Controller.__init__\<close>, on the file it finds.\<close>

definition controller_init :: "db_file \<Rightarrow> controller" where
  "controller_init f =
     \<lparr>model = ensure_db f, numero = [], view_numero = [], view_candidato = None,
      pending_resets = 0, ui_log = []\<rparr>"

text \<open>
  \<open>Controller.on_digit\<close>. At \<open>MAX_DIGITS\<close> characters or more (the six of \<open>BRANCO\<close>
  included) the key is ignored. The lookup sits in a \<open>try\<close> whose handler only prints, so
  a string \<open>int\<close> refuses leaves the view as it is.
\<close>

definition on_digit :: "controller \<Rightarrow> string \<Rightarrow> controller" where
  "on_digit c digit =
     (if length (numero c) \<ge> MAX_DIGITS then c
      else let c1 = c\<lparr>numero := numero c @ digit\<rparr>;
               c2 = c1\<lparr>view_numero := numero c1\<rparr>
           in if length (numero c2) = MAX_DIGITS then
                (if isdigit (numero c2)
                 then c2\<lparr>view_candidato := get_candidato (model c2) (int_str (numero c2))\<rparr>
                 else c2)
              else c2)"

text \<open>\<open>Controller.on_corrige\<close>.\<close>

definition on_corrige :: "controller \<Rightarrow> controller" where
  "on_corrige c = c\<lparr>numero := [], view_numero := [], view_candidato := None\<rparr>"

text \<open>\<open>Controller.on_branco\<close>.\<close>

definition on_branco :: "controller \<Rightarrow> controller" where
  "on_branco c = c\<lparr>numero := ''BRANCO'', view_numero := ''BRANCO'', view_candidato := None\<rparr>"

text \<open>\<open>Controller._reset_after_vote\<close>.\<close>

definition reset_after_vote :: "controller \<Rightarrow> controller" where
  "reset_after_vote c = c\<lparr>numero := [], view_numero := [], view_candidato := None\<rparr>"

text \<open>
  \<open>UrnaView.animacao_fim(callback=self._reset_after_vote)\<close>: the animation, then
  \<open>self.after(1200, ...)\<close>. The callback does not run inside \<open>animacao_fim\<close>; it is
  queued, and \<open>after_callback\<close> is the event loop running one queued callback.
\<close>

definition animacao_fim :: "controller \<Rightarrow> controller" where
  "animacao_fim c = c\<lparr>ui_log := ui_log c @ [AnimacaoFim], pending_resets := Suc (pending_resets c)\<rparr>"

definition after_callback :: "controller \<Rightarrow> controller" where
  "after_callback c =
     (if pending_resets c = 0 then c
      else reset_after_vote (c\<lparr>pending_resets := pending_resets c - 1\<rparr>))"

definition log_ui :: "ui_effect \<Rightarrow> controller \<Rightarrow> controller" where
  "log_ui e c = c\<lparr>ui_log := ui_log c @ [e]\<rparr>"

text \<open>
  \<open>Controller.on_confirma\<close>. \<open>resp\<close> is the voter's answer to \<open>askyesno\<close>, read only
  on the path that asks. \<open>gravar_voto\<close> is called outside any \<open>try\<close>: when it raises,
  the handler stops there and the exception leaves it (\<open>Inl\<close>, with the controller as
  the handler left it); otherwise the handler returns (\<open>Inr\<close>).
\<close>

definition on_confirma :: "controller \<Rightarrow> bool \<Rightarrow> (sql_error \<times> controller) + controller" where
  "on_confirma c resp =
     (if numero c = [] then Inr (log_ui ShowWarningNenhumNumero c)
      else let c1 = log_ui PlayPuc c in
        if numero c1 = ''BRANCO'' then
          (case gravar_voto (model c1) None of
             Inl e \<Rightarrow> Inl (e, c1)
           | Inr db \<Rightarrow> Inr (animacao_fim (log_ui ShowInfoBranco (c1\<lparr>model := db\<rparr>))))
        else if isdigit (numero c1) then
          (let cid = int_str (numero c1) in
           case get_candidato (model c1) cid of
             Some candidato \<Rightarrow>
               (case gravar_voto (model c1) (Some cid) of
                  Inl e \<Rightarrow> Inl (e, c1)
                | Inr db \<Rightarrow>
                    Inr (animacao_fim (log_ui (ShowInfoCandidato (fst (snd candidato)))
                                         (c1\<lparr>model := db\<rparr>))))
           | None \<Rightarrow>
               (let c2 = log_ui AskYesNoNulo c1 in
                if resp then
                  (case gravar_voto (model c2) None of
                     Inl e \<Rightarrow> Inl (e, c2)
                   | Inr db \<Rightarrow> Inr (animacao_fim (log_ui PlayPuc (c2\<lparr>model := db\<rparr>))))
                else Inr c2))
        else Inr (log_ui ShowErrorNumeroInvalido c1))"

text \<open>
  The controller after a handler has run, whether it returned or raised: Tk reports an
  exception of a callback and the event loop goes on with the same object.
\<close>

definition estado :: "(sql_error \<times> controller) + controller \<Rightarrow> controller" where
  "estado r = (case r of Inl (e, c) \<Rightarrow> c | Inr c \<Rightarrow> c)"

text \<open>
  \<open>on_confirma\<close> fired once per element of the list (the answers to \<open>askyesno\<close>, where
  asked), with nothing running in between: no other handler and no queued callback.
\<close>

fun confirmas :: "controller \<Rightarrow> bool list \<Rightarrow> controller" where
  "confirmas c [] = c"
| "confirmas c (resp # resps) = confirmas (estado (on_confirma c resp)) resps"

section \<open>The CSV report\<close>

text \<open>
  A value handed to \<open>csv.writer.writerow\<close>: an \<open>int\<close>, a \<open>str\<close> or \<open>None\<close>.
\<close>

datatype cell = CellInt int | CellStr string | CellNone

text \<open>
  \<open>candidatos.get(cid, ("<desconhecido>", ""))\<close> on the dict
  \<open>{c[0]: (c[1], c[2]) for c in listar_candidatos()}\<close>; in a dict comprehension a later
  item with the same key replaces the earlier one.
\<close>

definition candidatos_get :: "candidato list \<Rightarrow> int \<Rightarrow> cell \<times> cell" where
  "candidatos_get cs cid =
     (case map_of (rev cs) cid of
        None \<Rightarrow> (CellStr ''<desconhecido>'', CellStr [])
      | Some (nome, partido) \<Rightarrow>
          (CellStr nome, (case partido of None \<Rightarrow> CellNone | Some p \<Rightarrow> CellStr p)))"

text \<open>
  The rows \<open>salvar\<close> writes, from the tally \<open>votos\<close> and the candidate list that
  \<open>on_relatorio\<close> read: the header, then one row per item of \<open>votos\<close>, in its order.
  Nothing follows that loop.
\<close>

definition salvar_rows :: "(int option \<times> nat) list \<Rightarrow> candidato list \<Rightarrow> cell list list" where
  "salvar_rows votos_d cs =
     [CellStr ''candidato_id'', CellStr ''nome'', CellStr ''partido'', CellStr ''votos''] #
     map (\<lambda>(cid, count).
            case cid of
              None \<Rightarrow> [CellStr ''BRANCO'', CellStr ''BRANCO'', CellStr [], CellInt (int count)]
            | Some i \<Rightarrow> [CellInt i, fst (candidatos_get cs i), snd (candidatos_get cs i),
                         CellInt (int count)])
         votos_d"

text \<open>
  \<open>salvar\<close>, the button of the report window: an empty path (the dialog was cancelled)
  writes nothing. \<open>on_relatorio_salvar\<close> is \<open>on_relatorio\<close> followed by that button; the
  tally is read without a \<open>try\<close>, so an error of \<open>contar_votos\<close> leaves the handler.
  A failure of the file system is outside the model.
\<close>

definition salvar :: "string \<Rightarrow> (int option \<times> nat) list \<Rightarrow> candidato list \<Rightarrow> cell list list option" where
  "salvar path votos_d cs = (if path = [] then None else Some (salvar_rows votos_d cs))"

definition on_relatorio_salvar :: "database \<Rightarrow> string \<Rightarrow> sql_error + cell list list option" where
  "on_relatorio_salvar db path =
     (case contar_votos db of
        Inl e \<Rightarrow> Inl e
      | Inr votos_d \<Rightarrow> Inr (salvar path votos_d (listar_candidatos db)))"

section \<open>The strings the keypad can build\<close>

text \<open>
  The input is empty, the token \<open>BRANCO\<close>, or at most \<open>MAX_DIGITS\<close> ASCII digits: the
  shapes \<open>numero\<close> can take when the keys are those of \<open>UrnaView\<close>.
\<close>

definition numero_ok :: "string \<Rightarrow> bool" where
  "numero_ok s = (s = ''BRANCO'' \<or> (length s \<le> MAX_DIGITS \<and> list_all (\<lambda>c. c \<in> set ''0123456789'') s))"

section \<open>Facts about the store\<close>

lemma gravar_voto_columns:
  "gravar_voto db cid = Inr db' \<Longrightarrow> columns (votos db') = columns (votos db)"
  by (auto simp: gravar_voto_def Let_def split: if_splits)

lemma gravar_voto_length:
  "gravar_voto db cid = Inr db' \<Longrightarrow> length (rows (votos db')) = Suc (length (rows (votos db)))"
  by (auto simp: gravar_voto_def Let_def split: if_splits)

lemma gravar_votos_columns:
  "columns (votos (snd (gravar_votos db cids))) = columns (votos db)"
proof (induction cids arbitrary: db)
  case Nil
  show ?case by simp
next
  case (Cons cid cids)
  show ?case
  proof (cases "gravar_voto db cid")
    case (Inl e)
    with Cons.IH [of db] show ?thesis by simp
  next
    case (Inr db')
    with Cons.IH [of db'] gravar_voto_columns [OF Inr] show ?thesis
      by (auto split: prod.splits)
  qed
qed

lemma gravar_votos_length:
  "length (rows (votos (snd (gravar_votos db cids)))) =
     length (rows (votos db)) + fst (gravar_votos db cids)"
proof (induction cids arbitrary: db)
  case Nil
  show ?case by simp
next
  case (Cons cid cids)
  show ?case
  proof (cases "gravar_voto db cid")
    case (Inl e)
    with Cons.IH [of db] show ?thesis by simp
  next
    case (Inr db')
    with Cons.IH [of db'] gravar_voto_length [OF Inr] show ?thesis
      by (auto split: prod.splits)
  qed
qed

lemma total_group_by: "total_votos (group_by_candidato_id vs) = length vs"
proof -
  let ?ks = "map candidato_id vs"
  have "total_votos (group_by_candidato_id vs) = sum_list (map (count_list ?ks) (sort (remdups ?ks)))"
    by (simp add: total_votos_def group_by_candidato_id_def Let_def comp_def)
  also have "\<dots> = sum (count_list ?ks) (set (sort (remdups ?ks)))"
    by (rule sum_list_distinct_conv_sum_set) simp
  also have "\<dots> = sum (count_list ?ks) (set ?ks)"
    by simp
  also have "\<dots> = length ?ks"
    by (rule sum_count_set) simp_all
  finally show ?thesis by simp
qed

lemma ensure_db_fresh_columns:
  "file_votos f = None \<Longrightarrow> columns (votos (ensure_db f)) = [''id'', ''candidato_id'', ''timestamp'']"
  by (simp add: ensure_db_def)

section \<open>Facts about the handlers\<close>

lemmas urna_defs =
  controller_init_def ensure_db_def on_digit_def on_branco_def on_corrige_def MAX_DIGITS_def
  isdigit_def int_str_def get_candidato_def on_confirma_def log_ui_def gravar_voto_def
  animacao_fim_def estado_def reset_after_vote_def after_callback_def

text \<open>
  The keypad never takes \<open>numero\<close> out of the three shapes, so \<open>int\<close> is only ever
  applied to ASCII digits.
\<close>

lemma on_digit_numero_ok:
  assumes "numero_ok (numero c)" and "k \<in> set ''1234567890''"
  shows "numero_ok (numero (on_digit c [k]))"
  using assms by (auto simp: numero_ok_def on_digit_def MAX_DIGITS_def Let_def)

lemma handlers_numero_ok:
  "numero_ok (numero (on_corrige c))"
  "numero_ok (numero (on_branco c))"
  "numero_ok (numero (reset_after_vote c))"
  by (simp_all add: numero_ok_def on_corrige_def on_branco_def reset_after_vote_def)

lemma on_confirma_numero: "numero (estado (on_confirma c resp)) = numero c"
  by (simp add: on_confirma_def estado_def log_ui_def animacao_fim_def Let_def
      split: sum.splits option.splits)

lemma numero_ok_cases:
  "numero_ok s \<Longrightarrow> s = [] \<or> s = ''BRANCO'' \<or> isdigit s"
  by (auto simp: numero_ok_def isdigit_def)

text \<open>
  The three paths of \<open>on_confirma\<close> that write, on a store whose \<open>votos\<close> table has
  the two columns the \<open>INSERT\<close> names. The blank path and the null path store the same
  row.
\<close>

lemma on_confirma_matched:
  assumes "isdigit (numero c)"
    and "get_candidato (model c) (int_str (numero c)) = Some cand"
    and "''candidato_id'' \<in> set (columns (votos (model c)))"
    and "''voto_tipo'' \<in> set (columns (votos (model c)))"
  shows "on_confirma c resp =
     Inr (c\<lparr>model := (model c)\<lparr>votos := (votos (model c))\<lparr>rows := rows (votos (model c)) @
               [\<lparr>candidato_id = Some (int_str (numero c)), voto_tipo = Some ''VALIDO''\<rparr>]\<rparr>\<rparr>,
            ui_log := ui_log c @ [PlayPuc, ShowInfoCandidato (fst (snd cand)), AnimacaoFim],
            pending_resets := Suc (pending_resets c)\<rparr>)"
proof -
  from assms(1) have ne: "numero c \<noteq> []" and nb: "numero c \<noteq> ''BRANCO''"
    by (auto simp: isdigit_def)
  show ?thesis
    using assms ne nb
    by (simp add: on_confirma_def log_ui_def gravar_voto_def animacao_fim_def Let_def)
qed

lemma on_confirma_branco:
  assumes "numero c = ''BRANCO''"
    and "''candidato_id'' \<in> set (columns (votos (model c)))"
    and "''voto_tipo'' \<in> set (columns (votos (model c)))"
  shows "on_confirma c resp =
     Inr (c\<lparr>model := (model c)\<lparr>votos := (votos (model c))\<lparr>rows := rows (votos (model c)) @
               [\<lparr>candidato_id = None, voto_tipo = Some ''BRANCO''\<rparr>]\<rparr>\<rparr>,
            ui_log := ui_log c @ [PlayPuc, ShowInfoBranco, AnimacaoFim],
            pending_resets := Suc (pending_resets c)\<rparr>)"
  using assms by (simp add: on_confirma_def log_ui_def gravar_voto_def animacao_fim_def Let_def)

lemma on_confirma_nulo:
  assumes "isdigit (numero c)"
    and "get_candidato (model c) (int_str (numero c)) = None"
    and "''candidato_id'' \<in> set (columns (votos (model c)))"
    and "''voto_tipo'' \<in> set (columns (votos (model c)))"
  shows "on_confirma c True =
     Inr (c\<lparr>model := (model c)\<lparr>votos := (votos (model c))\<lparr>rows := rows (votos (model c)) @
               [\<lparr>candidato_id = None, voto_tipo = Some ''BRANCO''\<rparr>]\<rparr>\<rparr>,
            ui_log := ui_log c @ [PlayPuc, AskYesNoNulo, PlayPuc, AnimacaoFim],
            pending_resets := Suc (pending_resets c)\<rparr>)"
proof -
  from assms(1) have ne: "numero c \<noteq> []" and nb: "numero c \<noteq> ''BRANCO''"
    by (auto simp: isdigit_def)
  show ?thesis
    using assms ne nb
    by (simp add: on_confirma_def log_ui_def gravar_voto_def animacao_fim_def Let_def)
qed

lemma on_digit_two_keys:
  assumes "numero c = []" and "a \<in> set ''1234567890''" and "b \<in> set ''1234567890''"
  shows "on_digit (on_digit c [a]) [b] =
           c\<lparr>numero := [a, b], view_numero := [a, b],
             view_candidato := get_candidato (model c) (int_str [a, b])\<rparr>"
  using assms by (auto simp: on_digit_def MAX_DIGITS_def isdigit_def Let_def)

lemma valid_vote_when_insert_accepted:
  assumes "numero c = []" and "a \<in> set ''1234567890''" and "b \<in> set ''1234567890''"
    and "get_candidato (model c) (int_str [a, b]) = Some cand"
    and "''candidato_id'' \<in> set (columns (votos (model c)))"
    and "''voto_tipo'' \<in> set (columns (votos (model c)))"
  shows "\<exists>c'. on_confirma (on_digit (on_digit c [a]) [b]) resp = Inr c'
           \<and> rows (votos (model c')) = rows (votos (model c)) @
                [\<lparr>candidato_id = Some (int_str [a, b]), voto_tipo = Some ''VALIDO''\<rparr>]
           \<and> pending_resets c' = Suc (pending_resets c)
           \<and> numero (after_callback c') = []"
proof -
  let ?c2 = "on_digit (on_digit c [a]) [b]"
  have c2: "?c2 = c\<lparr>numero := [a, b], view_numero := [a, b],
             view_candidato := get_candidato (model c) (int_str [a, b])\<rparr>"
    by (rule on_digit_two_keys [OF assms(1-3)])
  have d: "isdigit (numero ?c2)"
    using assms(2,3) by (subst c2) (auto simp: isdigit_def)
  have m: "get_candidato (model ?c2) (int_str (numero ?c2)) = Some cand"
    using assms(4) by (subst (1 2) c2) simp
  have k1: "''candidato_id'' \<in> set (columns (votos (model ?c2)))"
    using assms(5) by (subst c2) simp
  have k2: "''voto_tipo'' \<in> set (columns (votos (model ?c2)))"
    using assms(6) by (subst c2) simp
  show ?thesis
    by (subst on_confirma_matched [OF d m k1 k2]) 
       (simp add: c2 after_callback_def reset_after_vote_def)
qed

lemma blank_vote_when_insert_accepted:
  assumes "''candidato_id'' \<in> set (columns (votos (model c)))"
    and "''voto_tipo'' \<in> set (columns (votos (model c)))"
  shows "\<exists>c'. on_confirma (on_branco c) resp = Inr c'
           \<and> rows (votos (model c')) = rows (votos (model c)) @
                [\<lparr>candidato_id = None, voto_tipo = Some ''BRANCO''\<rparr>]
           \<and> pending_resets c' = Suc (pending_resets c)
           \<and> numero (after_callback c') = []"
proof -
  have n: "numero (on_branco c) = ''BRANCO''" by (simp add: on_branco_def)
  have k1: "''candidato_id'' \<in> set (columns (votos (model (on_branco c))))"
    using assms(1) by (simp add: on_branco_def)
  have k2: "''voto_tipo'' \<in> set (columns (votos (model (on_branco c))))"
    using assms(2) by (simp add: on_branco_def)
  show ?thesis
    by (subst on_confirma_branco [OF n k1 k2])
       (simp add: on_branco_def after_callback_def reset_after_vote_def)
qed

lemma on_confirma_at_most_one_row:
  "length (rows (votos (model (estado (on_confirma c resp))))) \<le> Suc (length (rows (votos (model c))))"
  by (auto simp: on_confirma_def estado_def log_ui_def animacao_fim_def Let_def
      split: sum.splits option.splits dest: gravar_voto_length)

section \<open>Claims about the store\<close>

text \<open>
  The specification's example for C1 expects the tally of the ballots Valid(13), Blank,
  Valid(13), Null to hold a Blank key at 1 and a different Null key at 1. In the program
  the blank path and the null path of \<open>on_confirma\<close> both call \<open>gravar_voto(None)\<close>, and
  \<open>contar_votos\<close> groups by \<open>candidato_id\<close> alone: on a store with the candidates 13 and 22
  the tally has two items, and the key \<open>None\<close> stands at 2.
\<close>

theorem C1_blank_and_null_under_one_key:
  "contar_votos (snd (gravar_votos
      \<lparr>candidatos = [(13, ''A'', Some ''P1''), (22, ''B'', Some ''P2'')],
       votos = \<lparr>columns = [''id'', ''candidato_id'', ''voto_tipo'', ''timestamp''], rows = []\<rparr>\<rparr>
      [Some 13, None, Some 13, None]))
   = Inr [(None, 2), (Some 13, 2)]"
  by (simp add: gravar_voto_def contar_votos_def group_by_candidato_id_def)

text \<open>
  C1, as the program has it. On a store whose \<open>votos\<close> table is empty and has the
  columns \<open>candidato_id\<close> and \<open>voto_tipo\<close>, whatever the registry, the four calls
  \<open>gravar_voto(13)\<close>, \<open>gravar_voto(None)\<close> (Blank), \<open>gravar_voto(13)\<close>,
  \<open>gravar_voto(None)\<close> (Null) all return, and \<open>contar_votos\<close> then returns exactly two
  items: 13 at 2 and the key \<open>None\<close> at 2. Candidate 22 is absent, and Blank and Null are
  counted together under \<open>None\<close>.
\<close>

theorem C1_tally_of_the_four_ballots:
  assumes "rows (votos db) = []"
    and "''candidato_id'' \<in> set (columns (votos db))"
    and "''voto_tipo'' \<in> set (columns (votos db))"
  shows "fst (gravar_votos db [Some 13, None, Some 13, None]) = 4
       \<and> contar_votos (snd (gravar_votos db [Some 13, None, Some 13, None]))
           = Inr [(None, 2), (Some 13, 2)]"
  using assms by (simp add: gravar_voto_def contar_votos_def group_by_candidato_id_def)

text \<open>
  The same on the store of the program's two seeded candidates.
\<close>

theorem C1_tally_of_the_four_ballots_witness:
  "rows (votos \<lparr>candidatos = [(13, ''Lula'', Some ''PT''), (22, ''Bolsonaro'', Some ''PL'')],
                votos = \<lparr>columns = [''candidato_id'', ''voto_tipo''], rows = []\<rparr>\<rparr>) = []
   \<and> ''candidato_id'' \<in> set (columns (votos \<lparr>candidatos = [(13, ''Lula'', Some ''PT''), (22, ''Bolsonaro'', Some ''PL'')],
                votos = \<lparr>columns = [''candidato_id'', ''voto_tipo''], rows = []\<rparr>\<rparr>))
   \<and> ''voto_tipo'' \<in> set (columns (votos \<lparr>candidatos = [(13, ''Lula'', Some ''PT''), (22, ''Bolsonaro'', Some ''PL'')],
                votos = \<lparr>columns = [''candidato_id'', ''voto_tipo''], rows = []\<rparr>\<rparr>))
   \<and> fst (gravar_votos \<lparr>candidatos = [(13, ''Lula'', Some ''PT''), (22, ''Bolsonaro'', Some ''PL'')],
                votos = \<lparr>columns = [''candidato_id'', ''voto_tipo''], rows = []\<rparr>\<rparr>
             [Some 13, None, Some 13, None]) = 4
   \<and> contar_votos (snd (gravar_votos \<lparr>candidatos = [(13, ''Lula'', Some ''PT''), (22, ''Bolsonaro'', Some ''PL'')],
                votos = \<lparr>columns = [''candidato_id'', ''voto_tipo''], rows = []\<rparr>\<rparr>
             [Some 13, None, Some 13, None])) = Inr [(None, 2), (Some 13, 2)]"
proof -
  let ?db = "\<lparr>candidatos = [(13, ''Lula'', Some ''PT''), (22, ''Bolsonaro'', Some ''PL'')],
                votos = \<lparr>columns = [''candidato_id'', ''voto_tipo''], rows = []\<rparr>\<rparr>"
  have h1: "rows (votos ?db) = []" by simp
  have h2: "''candidato_id'' \<in> set (columns (votos ?db))" by simp
  have h3: "''voto_tipo'' \<in> set (columns (votos ?db))" by simp
  from h1 h2 h3 C1_tally_of_the_four_ballots [OF h1 h2 h3] show ?thesis by blast
qed

text \<open>
  C3. On a store that \<open>_ensure_db\<close> has just created (the file had no \<open>votos\<close> table, so
  the table has the columns \<open>id\<close>, \<open>candidato_id\<close>, \<open>timestamp\<close> only), every call of
  \<open>gravar_voto\<close> raises, because the \<open>INSERT\<close> names the column \<open>voto_tipo\<close>, and inserts
  nothing: after any run of calls none has returned and the store is the one
  \<open>_ensure_db\<close> made, with no row in \<open>votos\<close>.
\<close>

theorem C3_fresh_store_rejects_every_vote:
  assumes "file_votos f = None"
  shows "gravar_voto (ensure_db f) cid = Inl (NoColumnNamed ''voto_tipo'')
       \<and> gravar_votos (ensure_db f) cids = (0, ensure_db f)
       \<and> rows (votos (ensure_db f)) = []"
proof -
  have one: "gravar_voto (ensure_db f) c = Inl (NoColumnNamed ''voto_tipo'')" for c
    using assms by (simp add: gravar_voto_def ensure_db_def Let_def)
  have run: "gravar_votos (ensure_db f) cs = (0, ensure_db f)" for cs
    by (induction cs) (simp_all add: one)
  have "rows (votos (ensure_db f)) = []"
    using assms by (simp add: ensure_db_def)
  with one run show ?thesis by simp
qed

text \<open>
  A file with no table at all: both calls raise and the table stays empty.
\<close>

theorem C3_fresh_store_witness:
  "file_votos \<lparr>file_candidatos = None, file_votos = None\<rparr> = None
   \<and> gravar_voto (ensure_db \<lparr>file_candidatos = None, file_votos = None\<rparr>) (Some 13)
       = Inl (NoColumnNamed ''voto_tipo'')
   \<and> gravar_votos (ensure_db \<lparr>file_candidatos = None, file_votos = None\<rparr>) [Some 13, None]
       = (0, ensure_db \<lparr>file_candidatos = None, file_votos = None\<rparr>)
   \<and> rows (votos (ensure_db \<lparr>file_candidatos = None, file_votos = None\<rparr>)) = []"
proof -
  have h: "file_votos \<lparr>file_candidatos = None, file_votos = None\<rparr> = None"
    by simp
  from h C3_fresh_store_rejects_every_vote [OF h, of "Some 13" "[Some 13, None]"]
  show ?thesis by blast
qed

text \<open>
  C4. Start from a store whose \<open>votos\<close> table has no row and make any run of
  \<open>gravar_voto\<close> calls. Then \<open>contar_votos\<close> returns a tally, and the counts of all its
  keys add up to the number of calls that returned. (The table has the column
  \<open>candidato_id\<close> that the \<open>SELECT\<close> names: \<open>_ensure_db\<close> creates it so.)
\<close>

theorem C4_tally_total_is_number_of_appends:
  assumes "rows (votos db) = []"
    and "''candidato_id'' \<in> set (columns (votos db))"
  shows "\<exists>t. contar_votos (snd (gravar_votos db cids)) = Inr t
           \<and> total_votos t = fst (gravar_votos db cids)"
proof -
  let ?db' = "snd (gravar_votos db cids)"
  have cols: "''candidato_id'' \<in> set (columns (votos ?db'))"
    using assms(2) by (simp add: gravar_votos_columns)
  then have tally: "contar_votos ?db' = Inr (group_by_candidato_id (rows (votos ?db')))"
    by (simp add: contar_votos_def)
  have "total_votos (group_by_candidato_id (rows (votos ?db'))) = length (rows (votos ?db'))"
    by (rule total_group_by)
  also have "\<dots> = fst (gravar_votos db cids)"
    using assms(1) by (simp add: gravar_votos_length)
  finally show ?thesis using tally by simp
qed

text \<open>
  Three calls on an empty table that has both columns of the \<open>INSERT\<close>: all three
  return, and the tally, \<open>None\<close> at 1 and 13 at 2, adds up to 3.
\<close>

theorem C4_tally_total_witness:
  "rows (votos \<lparr>candidatos = [], votos = \<lparr>columns = [''candidato_id'', ''voto_tipo''], rows = []\<rparr>\<rparr>) = []
   \<and> ''candidato_id'' \<in> set (columns (votos \<lparr>candidatos = [], votos = \<lparr>columns = [''candidato_id'', ''voto_tipo''], rows = []\<rparr>\<rparr>))
   \<and> fst (gravar_votos \<lparr>candidatos = [], votos = \<lparr>columns = [''candidato_id'', ''voto_tipo''], rows = []\<rparr>\<rparr>
             [Some 13, None, Some 13]) = 3
   \<and> (\<exists>t. contar_votos (snd (gravar_votos \<lparr>candidatos = [], votos = \<lparr>columns = [''candidato_id'', ''voto_tipo''], rows = []\<rparr>\<rparr>
                  [Some 13, None, Some 13])) = Inr t
          \<and> total_votos t = 3)"
proof -
  let ?db = "\<lparr>candidatos = [], votos = \<lparr>columns = [''candidato_id'', ''voto_tipo''], rows = []\<rparr>\<rparr>"
  have h1: "rows (votos ?db) = []" by simp
  have h2: "''candidato_id'' \<in> set (columns (votos ?db))" by simp
  have n: "fst (gravar_votos ?db [Some 13, None, Some 13]) = 3"
    by (simp add: gravar_voto_def)
  from C4_tally_total_is_number_of_appends [OF h1 h2, of "[Some 13, None, Some 13]"]
  have "\<exists>t. contar_votos (snd (gravar_votos ?db [Some 13, None, Some 13])) = Inr t
           \<and> total_votos t = 3"
    unfolding n .
  with h1 h2 n show ?thesis by blast
qed

section \<open>Claims about the session\<close>

text \<open>
  C2 expects consecutive \<open>confirma\<close> events on one completed session to append one row
  at most. \<open>on_confirma\<close> does not clear \<open>numero\<close>; only the callback queued by
  \<open>animacao_fim\<close> does. With candidate 13 registered and the digits 1 and 3 keyed in, two
  invocations in a row leave two rows.
\<close>

theorem C2_two_confirmas_two_rows:
  "rows (votos (model (confirmas
      (on_digit (on_digit (controller_init
         \<lparr>file_candidatos = Some [(13, ''A'', Some ''P1''), (22, ''B'', Some ''P2'')],
          file_votos = Some \<lparr>columns = [''id'', ''candidato_id'', ''voto_tipo'', ''timestamp''], rows = []\<rparr>\<rparr>)
         ''1'') ''3'')
      [True, True])))
   = [\<lparr>candidato_id = Some 13, voto_tipo = Some ''VALIDO''\<rparr>,
      \<lparr>candidato_id = Some 13, voto_tipo = Some ''VALIDO''\<rparr>]"
  by (simp add: urna_defs)

text \<open>
  C2, as the program has it. On a session whose digits match a registered candidate, on
  a store whose \<open>votos\<close> table has the columns \<open>candidato_id\<close> and \<open>voto_tipo\<close>,
  every one of a run of consecutive \<open>on_confirma\<close> invocations appends one row for that
  candidate: n invocations append n rows, and the input still holds the same digits
  afterwards.
\<close>

theorem C2_every_confirma_appends:
  assumes "isdigit (numero c)"
    and "get_candidato (model c) (int_str (numero c)) = Some cand"
    and "''candidato_id'' \<in> set (columns (votos (model c)))"
    and "''voto_tipo'' \<in> set (columns (votos (model c)))"
  shows "rows (votos (model (confirmas c resps))) =
           rows (votos (model c)) @
           replicate (length resps) \<lparr>candidato_id = Some (int_str (numero c)), voto_tipo = Some ''VALIDO''\<rparr>
       \<and> numero (confirmas c resps) = numero c"
  using assms
proof (induction resps arbitrary: c)
  case Nil
  show ?case by simp
next
  case (Cons resp resps)
  let ?c' = "estado (on_confirma c resp)"
  have step: "on_confirma c resp = Inr ?c'"
    using on_confirma_matched [OF Cons.prems, of resp] by (simp add: estado_def)
  have c': "?c' = c\<lparr>model := (model c)\<lparr>votos := (votos (model c))\<lparr>rows := rows (votos (model c)) @
               [\<lparr>candidato_id = Some (int_str (numero c)), voto_tipo = Some ''VALIDO''\<rparr>]\<rparr>\<rparr>,
            ui_log := ui_log c @ [PlayPuc, ShowInfoCandidato (fst (snd cand)), AnimacaoFim],
            pending_resets := Suc (pending_resets c)\<rparr>"
    using on_confirma_matched [OF Cons.prems, of resp] by (simp add: estado_def)
  have n: "numero ?c' = numero c" by (subst c') simp
  have m: "get_candidato (model ?c') (int_str (numero ?c')) = Some cand"
    using Cons.prems(2) by (subst (1 2) c') (simp add: get_candidato_def)
  have k1: "''candidato_id'' \<in> set (columns (votos (model ?c')))"
    using Cons.prems(3) by (subst c') simp
  have k2: "''voto_tipo'' \<in> set (columns (votos (model ?c')))"
    using Cons.prems(4) by (subst c') simp
  have d: "isdigit (numero ?c')" using Cons.prems(1) n by simp
  have r: "rows (votos (model ?c')) = rows (votos (model c)) @
               [\<lparr>candidato_id = Some (int_str (numero c)), voto_tipo = Some ''VALIDO''\<rparr>]"
    by (subst c') simp
  from Cons.IH [OF d m k1 k2] n r show ?case
    by (simp add: replicate_append_same)
qed

text \<open>
  Three invocations on the digits 22: three rows.
\<close>

theorem C2_every_confirma_appends_witness:
  "isdigit (numero \<lparr>model = \<lparr>candidatos = [(22, ''B'', None)],
                              votos = \<lparr>columns = [''candidato_id'', ''voto_tipo''], rows = []\<rparr>\<rparr>,
                    numero = ''22'', view_numero = ''22'', view_candidato = Some (22, ''B'', None),
                    pending_resets = 0, ui_log = []\<rparr>)
   \<and> rows (votos (model (confirmas
        \<lparr>model = \<lparr>candidatos = [(22, ''B'', None)],
                   votos = \<lparr>columns = [''candidato_id'', ''voto_tipo''], rows = []\<rparr>\<rparr>,
         numero = ''22'', view_numero = ''22'', view_candidato = Some (22, ''B'', None),
         pending_resets = 0, ui_log = []\<rparr> [False, True, False])))
      = [\<lparr>candidato_id = Some 22, voto_tipo = Some ''VALIDO''\<rparr>,
         \<lparr>candidato_id = Some 22, voto_tipo = Some ''VALIDO''\<rparr>,
         \<lparr>candidato_id = Some 22, voto_tipo = Some ''VALIDO''\<rparr>]
   \<and> numero (confirmas
        \<lparr>model = \<lparr>candidatos = [(22, ''B'', None)],
                   votos = \<lparr>columns = [''candidato_id'', ''voto_tipo''], rows = []\<rparr>\<rparr>,
         numero = ''22'', view_numero = ''22'', view_candidato = Some (22, ''B'', None),
         pending_resets = 0, ui_log = []\<rparr> [False, True, False]) = ''22''"
proof -
  let ?c = "\<lparr>model = \<lparr>candidatos = [(22, ''B'', None)],
                   votos = \<lparr>columns = [''candidato_id'', ''voto_tipo''], rows = []\<rparr>\<rparr>,
         numero = ''22'', view_numero = ''22'', view_candidato = Some (22, ''B'', None),
         pending_resets = 0, ui_log = []\<rparr>"
  have h1: "isdigit (numero ?c)" by (simp add: isdigit_def)
  have h2: "get_candidato (model ?c) (int_str (numero ?c)) = Some (22, ''B'', None)"
    by (simp add: get_candidato_def int_str_def)
  have h3: "''candidato_id'' \<in> set (columns (votos (model ?c)))" by simp
  have h4: "''voto_tipo'' \<in> set (columns (votos (model ?c)))" by simp
  have v: "int_str (numero ?c) = 22" by (simp add: int_str_def)
  from C2_every_confirma_appends [OF h1 h2 h3 h4, of "[False, True, False]"] h1 v
  show ?thesis by (simp del: confirmas.simps)
qed

text \<open>
  C5 expects the digits of a registered candidate followed by \<open>confirma\<close> to append one
  Valid record and the input to be reset. On the store the program creates for itself
  (\<open>_ensure_db\<close> on a file without a \<open>votos\<close> table), with candidate 13 registered and
  the keys 1 and 3 pressed, \<open>on_confirma\<close> raises out of \<open>gravar_voto\<close>: no row is
  written, no reset is queued and the input still reads 13. Where the table has both
  columns the expected behaviour holds (\<open>valid_vote_when_insert_accepted\<close>).
\<close>

theorem C5_valid_vote_on_created_store_raises:
  "on_confirma
     (on_digit (on_digit (controller_init
        \<lparr>file_candidatos = Some [(13, ''Lula'', Some ''PT''), (22, ''Bolsonaro'', Some ''PL'')],
         file_votos = None\<rparr>) ''1'') ''3'') False
   = Inl (NoColumnNamed ''voto_tipo'',
          \<lparr>model = \<lparr>candidatos = [(13, ''Lula'', Some ''PT''), (22, ''Bolsonaro'', Some ''PL'')],
                     votos = \<lparr>columns = [''id'', ''candidato_id'', ''timestamp''], rows = []\<rparr>\<rparr>,
           numero = ''13'', view_numero = ''13'',
           view_candidato = Some (13, ''Lula'', Some ''PT''),
           pending_resets = 0, ui_log = [PlayPuc]\<rparr>)"
  by (simp add: urna_defs)

text \<open>
  C6 expects a declined null vote to clear the digits. With the digits 9 and 9 keyed in
  and no candidate 99, \<open>on_confirma\<close> answered "no" returns with the input still 99 and
  nothing queued; the branch has no \<open>else\<close>.
\<close>

theorem C6_declined_null_keeps_digits_example:
  "on_confirma
     (on_digit (on_digit (controller_init
        \<lparr>file_candidatos = Some [(13, ''A'', Some ''P1''), (22, ''B'', Some ''P2'')],
         file_votos = None\<rparr>) ''9'') ''9'') False
   = Inr \<lparr>model = \<lparr>candidatos = [(13, ''A'', Some ''P1''), (22, ''B'', Some ''P2'')],
                     votos = \<lparr>columns = [''id'', ''candidato_id'', ''timestamp''], rows = []\<rparr>\<rparr>,
           numero = ''99'', view_numero = ''99'', view_candidato = None,
           pending_resets = 0, ui_log = [PlayPuc, AskYesNoNulo]\<rparr>"
  by (simp add: urna_defs)

text \<open>
  C6, as the program has it. On a session whose digits match no registered candidate,
  \<open>confirma\<close> followed by a negative answer appends no row and leaves the session as it
  was: the digits stay, no reset is queued, and only the cue and the question have
  happened.
\<close>

theorem C6_declined_null_changes_nothing:
  assumes "isdigit (numero c)"
    and "get_candidato (model c) (int_str (numero c)) = None"
  shows "on_confirma c False = Inr (c\<lparr>ui_log := ui_log c @ [PlayPuc, AskYesNoNulo]\<rparr>)"
proof -
  from assms(1) have ne: "numero c \<noteq> []" and nb: "numero c \<noteq> ''BRANCO''"
    by (auto simp: isdigit_def)
  show ?thesis
    using assms ne nb by (simp add: on_confirma_def log_ui_def Let_def)
qed

text \<open>
  The digits 07 with only candidate 13 registered.
\<close>

theorem C6_declined_null_changes_nothing_witness:
  "isdigit (numero \<lparr>model = \<lparr>candidatos = [(13, ''A'', None)],
                              votos = \<lparr>columns = [''candidato_id'', ''voto_tipo''], rows = []\<rparr>\<rparr>,
                    numero = ''07'', view_numero = ''07'', view_candidato = None,
                    pending_resets = 0, ui_log = []\<rparr>)
   \<and> on_confirma \<lparr>model = \<lparr>candidatos = [(13, ''A'', None)],
                              votos = \<lparr>columns = [''candidato_id'', ''voto_tipo''], rows = []\<rparr>\<rparr>,
                    numero = ''07'', view_numero = ''07'', view_candidato = None,
                    pending_resets = 0, ui_log = []\<rparr> False
     = Inr \<lparr>model = \<lparr>candidatos = [(13, ''A'', None)],
                              votos = \<lparr>columns = [''candidato_id'', ''voto_tipo''], rows = []\<rparr>\<rparr>,
                    numero = ''07'', view_numero = ''07'', view_candidato = None,
                    pending_resets = 0, ui_log = [PlayPuc, AskYesNoNulo]\<rparr>"
proof -
  let ?c = "\<lparr>model = \<lparr>candidatos = [(13, ''A'', None)],
                              votos = \<lparr>columns = [''candidato_id'', ''voto_tipo''], rows = []\<rparr>\<rparr>,
                    numero = ''07'', view_numero = ''07'', view_candidato = None,
                    pending_resets = 0, ui_log = []\<rparr>"
  have h1: "isdigit (numero ?c)" by (simp add: isdigit_def)
  have h2: "get_candidato (model ?c) (int_str (numero ?c)) = None"
    by (simp add: get_candidato_def int_str_def)
  from C6_declined_null_changes_nothing [OF h1 h2] h1 show ?thesis by simp
qed

text \<open>
  C7 expects the CSV to carry a row with count 0 for every registered candidate that has
  no vote. \<open>salvar\<close> writes the header and one row per key of the tally and stops. With
  the candidates 13 and 22 and the ballots 13, blank, 13, null, the file has the header, a
  \<open>BRANCO\<close> row at 2 and the row of 13 at 2; candidate 22 has no row.
\<close>

theorem C7_csv_omits_candidates_without_votes:
  "on_relatorio_salvar
     \<lparr>candidatos = [(13, ''A'', Some ''P1''), (22, ''B'', Some ''P2'')],
      votos = \<lparr>columns = [''id'', ''candidato_id'', ''voto_tipo'', ''timestamp''],
               rows = [\<lparr>candidato_id = Some 13, voto_tipo = Some ''VALIDO''\<rparr>,
                       \<lparr>candidato_id = None, voto_tipo = Some ''BRANCO''\<rparr>,
                       \<lparr>candidato_id = Some 13, voto_tipo = Some ''VALIDO''\<rparr>,
                       \<lparr>candidato_id = None, voto_tipo = Some ''BRANCO''\<rparr>]\<rparr>\<rparr>
     ''relatorio.csv''
   = Inr (Some
       [[CellStr ''candidato_id'', CellStr ''nome'', CellStr ''partido'', CellStr ''votos''],
        [CellStr ''BRANCO'', CellStr ''BRANCO'', CellStr [], CellInt 2],
        [CellInt 13, CellStr ''A'', CellStr ''P1'', CellInt 2]])"
  by (simp add: on_relatorio_salvar_def contar_votos_def group_by_candidato_id_def salvar_def
        salvar_rows_def listar_candidatos_def candidatos_get_def)

text \<open>
  C8 expects \<open>branco\<close> followed by \<open>confirma\<close> to append one Blank record. On the
  store the program creates for itself, \<open>on_confirma\<close> raises out of \<open>gravar_voto\<close> and
  nothing is written. Where the table has both columns the expected behaviour holds
  (\<open>blank_vote_when_insert_accepted\<close>).
\<close>

theorem C8_blank_vote_on_created_store_raises:
  "on_confirma (on_branco (controller_init
        \<lparr>file_candidatos = Some [(13, ''Lula'', Some ''PT''), (22, ''Bolsonaro'', Some ''PL'')],
         file_votos = None\<rparr>)) False
   = Inl (NoColumnNamed ''voto_tipo'',
          \<lparr>model = \<lparr>candidatos = [(13, ''Lula'', Some ''PT''), (22, ''Bolsonaro'', Some ''PL'')],
                     votos = \<lparr>columns = [''id'', ''candidato_id'', ''timestamp''], rows = []\<rparr>\<rparr>,
           numero = ''BRANCO'', view_numero = ''BRANCO'', view_candidato = None,
           pending_resets = 0, ui_log = [PlayPuc]\<rparr>)"
  by (simp add: urna_defs)

text \<open>
  C9. In every state of the controller \<open>on_corrige\<close> empties the input and what the
  view shows, and leaves the store, the queued callbacks and the outside effects as they
  were.
\<close>

theorem C9_corrige_clears_input_only:
  "numero (on_corrige c) = []
   \<and> model (on_corrige c) = model c
   \<and> view_numero (on_corrige c) = []
   \<and> view_candidato (on_corrige c) = None
   \<and> pending_resets (on_corrige c) = pending_resets c
   \<and> ui_log (on_corrige c) = ui_log c"
  by (simp add: on_corrige_def)

text \<open>
  C10. With an empty input \<open>on_confirma\<close> returns normally (no exception leaves it);
  the controller, store included, is as before except that the warning box has been
  shown.
\<close>

theorem C10_confirma_without_input_is_rejected:
  assumes "numero c = []"
  shows "on_confirma c resp = Inr (c\<lparr>ui_log := ui_log c @ [ShowWarningNenhumNumero]\<rparr>)"
  using assms by (simp add: on_confirma_def log_ui_def)

text \<open>
  The controller \<open>Controller.__init__\<close> builds starts with an empty input.
\<close>

theorem C10_confirma_without_input_witness:
  "numero (controller_init \<lparr>file_candidatos = None, file_votos = None\<rparr>) = []
   \<and> on_confirma (controller_init \<lparr>file_candidatos = None, file_votos = None\<rparr>) True
     = Inr \<lparr>model = \<lparr>candidatos = [], votos = \<lparr>columns = [''id'', ''candidato_id'', ''timestamp''], rows = []\<rparr>\<rparr>,
            numero = [], view_numero = [], view_candidato = None,
            pending_resets = 0, ui_log = [ShowWarningNenhumNumero]\<rparr>"
proof -
  have h: "numero (controller_init \<lparr>file_candidatos = None, file_votos = None\<rparr>) = []"
    by (simp add: controller_init_def)
  from C10_confirma_without_input_is_rejected [OF h, of True] h show ?thesis
    by (simp add: controller_init_def ensure_db_def)
qed

end
